theory Spec2Isabelle
  imports Main
begin

section \<open>JavaScript values and strings\<close>

text \<open>
  The fields of a JSON request body, and the value a function returns. \<open>JObject\<close> stands
  for any array or object: it is truthy and has no string methods.
\<close>

datatype jsval = JUndefined | JNull | JBool bool | JNum int | JStr string | JObject

fun truthy :: "jsval \<Rightarrow> bool" where
  "truthy JUndefined = False"
| "truthy JNull = False"
| "truthy (JBool b) = b"
| "truthy (JNum n) = (n \<noteq> 0)"
| "truthy (JStr s) = (s \<noteq> [])"
| "truthy JObject = True"

text \<open>\<open>String.prototype.toLowerCase\<close>, on the ASCII letters.\<close>

definition toLowerCase_char :: "char \<Rightarrow> char" where
  "toLowerCase_char c =
     (case map_of (zip ''ABCDEFGHIJKLMNOPQRSTUVWXYZ'' ''abcdefghijklmnopqrstuvwxyz'') c of
        Some d \<Rightarrow> d
      | None \<Rightarrow> c)"

definition toLowerCase :: "string \<Rightarrow> string" where
  "toLowerCase s = map toLowerCase_char s"


text \<open>
  \<open>message.match(/Address: (0x[a-fA-F0-9]{40})/)\<close> and its first capture group: the
  leftmost place where the text \<open>Address: 0x\<close> is followed by forty hexadecimal digits.
\<close>

definition is_hex :: "char \<Rightarrow> bool" where
  "is_hex c = (c \<in> set ''0123456789abcdefABCDEF'')"

definition match_here :: "string \<Rightarrow> string option" where
  "match_here s =
     (if take 11 s = ''Address: 0x'' \<and> length (take 40 (drop 11 s)) = 40
         \<and> list_all is_hex (take 40 (drop 11 s))
      then Some (take 42 (drop 9 s)) else None)"

fun address_match :: "string \<Rightarrow> string option" where
  "address_match [] = None"
| "address_match (c # cs) =
     (case match_here (c # cs) of Some a \<Rightarrow> Some a | None \<Rightarrow> address_match cs)"

text \<open>Whatever a \<open>throw\<close> carries; only a store error has a \<open>code\<close>.\<close>

datatype db_error = DbError string

fun code :: "db_error \<Rightarrow> string" where
  "code (DbError c) = c"

datatype js_exn = JsonWebTokenError | TokenExpiredError | DbExn db_error | TypeError

fun exn_code :: "js_exn \<Rightarrow> string option" where
  "exn_code (DbExn e) = Some (code e)"
| "exn_code _ = None"

section \<open>The jsonwebtoken library\<close>

text \<open>
  The library is not part of the repository. A token is modelled symbolically (a perfect
  MAC): a token made by \<open>jwt.sign\<close> carries its claims and the secret it was signed
  with, any other text is \<open>Opaque\<close>. \<open>jwt.verify\<close> throws on text that is not a token,
  on a signature made with another secret, and on a token whose \<open>exp\<close> (in seconds) is
  not after the clock, \<open>Math.floor(Date.now() / 1000)\<close>.
\<close>

record jwt_payload =
  wallet_address :: string
  iat :: int
  exp :: int
  iss :: string
  sub :: string

datatype token = Signed jwt_payload string | Opaque string

definition jwt_sign :: "jwt_payload \<Rightarrow> string \<Rightarrow> token" where
  "jwt_sign payload secret = Signed payload secret"

definition jwt_verify :: "token \<Rightarrow> string \<Rightarrow> int \<Rightarrow> js_exn + jwt_payload" where
  "jwt_verify t secret now =
     (case t of
        Opaque _ \<Rightarrow> Inl JsonWebTokenError
      | Signed payload k \<Rightarrow>
          if k \<noteq> secret then Inl JsonWebTokenError
          else if exp payload \<le> now div 1000 then Inl TokenExpiredError
          else Inr payload)"

section \<open>Configuration\<close>

record env =
  JWT_SECRET :: "string option"
  SUPABASE_SERVICE_KEY :: "string option"

text \<open>\<open>a || b\<close> on an environment variable: unset and the empty string are both falsy.\<close>

definition js_or :: "string option \<Rightarrow> string \<Rightarrow> string" where
  "js_or v d = (case v of None \<Rightarrow> d | Some s \<Rightarrow> if s = [] then d else s)"

definition jwtSecret :: "env \<Rightarrow> string" where
  "jwtSecret e = js_or (JWT_SECRET e) (js_or (SUPABASE_SERVICE_KEY e) ''fallback-secret'')"

definition SESSION_DURATION :: int where
  "SESSION_DURATION = 129600"

section \<open>The Supabase store\<close>

text \<open>
  The tables are those of the README: \<open>users\<close> has the primary key
  \<open>wallet_address\<close>; \<open>user_sessions\<close> has the primary key \<open>jwt_token\<close> and a
  \<open>wallet_address\<close> that references \<open>users\<close>. Times are milliseconds since the epoch.

  The store is a remote service, so each call can fail whatever the tables hold. The
  field \<open>faults\<close> decides it: the n-th call made on the client (counting from 0) fails
  with \<open>faults n\<close>, either as the \<open>error\<close> field of the result or as an exception.
  \<open>calls\<close> is the log of the calls made so far.
\<close>

record session_row =
  row_wallet_address :: string
  expires_at :: int
  created_at :: int

datatype db_fault = Returned db_error | Thrown db_error

datatype db_call =
    SelectUser string
  | InsertSession token
  | SelectSession token string
  | DeleteSession token
  | DeleteSessionOf token string
  | DeleteExpired int

record supabase =
  users :: "string set"
  user_sessions :: "token \<rightharpoonup> session_row"
  calls :: "db_call list"
  faults :: "nat \<Rightarrow> db_fault option"

datatype 'a db_result = Data 'a | Error db_error | Raise db_error

definition next_fault :: "supabase \<Rightarrow> db_fault option" where
  "next_fault st = faults st (length (calls st))"

definition log_call :: "db_call \<Rightarrow> supabase \<Rightarrow> supabase" where
  "log_call c st = st\<lparr>calls := calls st @ [c]\<rparr>"

text \<open>
  Runs one call: logs it, and unless the service fails, applies \<open>run\<close> to the tables.
\<close>

definition db_call ::
  "db_call \<Rightarrow> (supabase \<Rightarrow> 'a db_result \<times> supabase) \<Rightarrow> supabase \<Rightarrow> 'a db_result \<times> supabase" where
  "db_call c run st =
     (case next_fault st of
        Some (Returned e) \<Rightarrow> (Error e, log_call c st)
      | Some (Thrown e) \<Rightarrow> (Raise e, log_call c st)
      | None \<Rightarrow> run (log_call c st))"

text \<open>\<open>from('users').select('wallet_address').eq('wallet_address', a).single()\<close>\<close>

definition select_user :: "string \<Rightarrow> supabase \<Rightarrow> string db_result \<times> supabase" where
  "select_user a =
     db_call (SelectUser a)
       (\<lambda>st. if a \<in> users st then (Data a, st) else (Error (DbError ''PGRST116''), st))"

text \<open>
  \<open>from('user_sessions').insert([row])\<close>: the primary key rejects a token that is
  already recorded (23505), the foreign key an address with no profile (23503).
\<close>

definition insert_session :: "token \<Rightarrow> session_row \<Rightarrow> supabase \<Rightarrow> unit db_result \<times> supabase" where
  "insert_session t row =
     db_call (InsertSession t)
       (\<lambda>st. if user_sessions st t \<noteq> None then (Error (DbError ''23505''), st)
             else if row_wallet_address row \<notin> users st then (Error (DbError ''23503''), st)
             else (Data (), st\<lparr>user_sessions := (user_sessions st)(t \<mapsto> row)\<rparr>))"

text \<open>
  \<open>from('user_sessions').select('*').eq('jwt_token', t).eq('wallet_address', a).single()\<close>
\<close>

definition select_session :: "token \<Rightarrow> string \<Rightarrow> supabase \<Rightarrow> session_row db_result \<times> supabase" where
  "select_session t a =
     db_call (SelectSession t a)
       (\<lambda>st. case user_sessions st t of
                Some row \<Rightarrow>
                  if row_wallet_address row = a then (Data row, st)
                  else (Error (DbError ''PGRST116''), st)
              | None \<Rightarrow> (Error (DbError ''PGRST116''), st))"

text \<open>\<open>from('user_sessions').delete().eq('jwt_token', t)\<close>\<close>

definition delete_session :: "token \<Rightarrow> supabase \<Rightarrow> unit db_result \<times> supabase" where
  "delete_session t =
     db_call (DeleteSession t)
       (\<lambda>st. (Data (), st\<lparr>user_sessions := (user_sessions st)(t := None)\<rparr>))"


text \<open>\<open>from('user_sessions').delete().lt('expires_at', now)\<close>\<close>

definition delete_expired :: "int \<Rightarrow> supabase \<Rightarrow> unit db_result \<times> supabase" where
  "delete_expired now =
     db_call (DeleteExpired now)
       (\<lambda>st. (Data (),
              st\<lparr>user_sessions :=
                   (\<lambda>t. case user_sessions st t of
                          Some row \<Rightarrow> if expires_at row < now then None else Some row
                        | None \<Rightarrow> None)\<rparr>))"

text \<open>
  The store's own answer to "is this credential recorded for this address", with no
  call made.
\<close>

definition session_exists :: "supabase \<Rightarrow> token \<Rightarrow> string \<Rightarrow> bool" where
  "session_exists st t a =
     (case user_sessions st t of Some row \<Rightarrow> row_wallet_address row = a | None \<Rightarrow> False)"

text \<open>\<open>userDb.exists\<close> (database/supabase.js)\<close>

definition userDb_exists :: "string \<Rightarrow> supabase \<Rightarrow> (js_exn + bool) \<times> supabase" where
  "userDb_exists walletAddress st =
     (case select_user (toLowerCase walletAddress) st of
        (Raise e, st') \<Rightarrow> (Inl (DbExn e), st')
      | (Error e, st') \<Rightarrow>
          if code e \<noteq> ''PGRST116'' then (Inl (DbExn e), st') else (Inr False, st')
      | (Data d, st') \<Rightarrow> (Inr True, st'))"

section \<open>utils/supabaseAuth.js\<close>

text \<open>
  Every function takes \<open>now\<close>, the reading of \<open>Date.now()\<close> during the call, and the
  store, and returns its result with the store afterwards. A result \<open>Inl e\<close> is the
  exception \<open>e\<close> leaving the function.
\<close>

definition createAuthSession ::
  "env \<Rightarrow> string \<Rightarrow> int \<Rightarrow> supabase \<Rightarrow> (js_exn + token) \<times> supabase" where
  "createAuthSession e walletAddress now st =
     (let userPayload = \<lparr>wallet_address = toLowerCase walletAddress,
                          iat = now div 1000,
                          exp = now div 1000 + SESSION_DURATION,
                          iss = ''cheshire-auth'',
                          sub = toLowerCase walletAddress\<rparr>;
          token = jwt_sign userPayload (jwtSecret e)
      in case insert_session token
                \<lparr>row_wallet_address = toLowerCase walletAddress,
                 expires_at = now + SESSION_DURATION * 1000,
                 created_at = now\<rparr> st of
           (Data u, st') \<Rightarrow> (Inr token, st')
         | (Error err, st') \<Rightarrow> (Inl (DbExn err), st')
         | (Raise err, st') \<Rightarrow> (Inl (DbExn err), st'))"

record auth_result =
  walletAddress :: string
  isValid :: bool

text \<open>The \<open>try\<close> block of \<open>verifyAuthToken\<close>.\<close>

definition verifyAuthToken_try ::
  "env \<Rightarrow> token \<Rightarrow> int \<Rightarrow> supabase \<Rightarrow> (js_exn + auth_result option) \<times> supabase" where
  "verifyAuthToken_try e token now st =
     (case jwt_verify token (jwtSecret e) now of
        Inl x \<Rightarrow> (Inl x, st)
      | Inr decoded \<Rightarrow>
          (case select_session token (wallet_address decoded) st of
             (Raise err, st1) \<Rightarrow> (Inl (DbExn err), st1)
           | (Error err, st1) \<Rightarrow> (Inr None, st1)
           | (Data session, st1) \<Rightarrow>
               if expires_at session < now then
                 (case delete_session token st1 of
                    (Raise err, st2) \<Rightarrow> (Inl (DbExn err), st2)
                  | (r, st2) \<Rightarrow> (Inr None, st2))
               else (Inr (Some \<lparr>walletAddress = wallet_address decoded, isValid = True\<rparr>), st1)))"

definition verifyAuthToken ::
  "env \<Rightarrow> token \<Rightarrow> int \<Rightarrow> supabase \<Rightarrow> (js_exn + auth_result option) \<times> supabase" where
  "verifyAuthToken e token now st =
     (case verifyAuthToken_try e token now st of
        (Inl x, st') \<Rightarrow> (Inr None, st')
      | (Inr r, st') \<Rightarrow> (Inr r, st'))"


text \<open>
  \<open>cleanupExpiredSessions\<close> has no \<open>return\<close> statement: it logs a failure and its
  value is \<open>undefined\<close> on every path.
\<close>

definition cleanupExpiredSessions :: "int \<Rightarrow> supabase \<Rightarrow> (js_exn + jsval) \<times> supabase" where
  "cleanupExpiredSessions now st =
     (case delete_expired now st of
        (Raise err, st') \<Rightarrow> (Inr JUndefined, st')
      | (Error err, st') \<Rightarrow> (Inr JUndefined, st')
      | (Data u, st') \<Rightarrow> (Inr JUndefined, st'))"

section \<open>middleware/jwtAuth.js\<close>

text \<open>
  The \<open>Authorization\<close> header: \<open>Bearer t\<close> is the text \<open>Bearer \<close> followed by the token
  \<open>t\<close>, which \<open>substring(7)\<close> recovers; \<open>NonBearer s\<close> is any text \<open>s\<close> that does not
  start with \<open>Bearer \<close>.
\<close>

datatype authorization = Bearer token | NonBearer string

record request =
  authorization :: "authorization option"

datatype guard_result = Reject nat string | Next string

definition requireJwtAuth ::
  "env \<Rightarrow> request \<Rightarrow> int \<Rightarrow> supabase \<Rightarrow> guard_result \<times> supabase" where
  "requireJwtAuth e req now st =
     (case authorization req of
        None \<Rightarrow> (Reject 401 ''Authentication required - Bearer token missing'', st)
      | Some (NonBearer s) \<Rightarrow>
          (Reject 401 ''Authentication required - Bearer token missing'', st)
      | Some (Bearer token) \<Rightarrow>
          (case verifyAuthToken e token now st of
             (Inl x, st') \<Rightarrow> (Reject 500 ''Authentication check failed'', st')
           | (Inr None, st') \<Rightarrow> (Reject 401 ''Invalid or expired token'', st')
           | (Inr (Some authResult), st') \<Rightarrow>
               if \<not> isValid authResult then (Reject 401 ''Invalid or expired token'', st')
               else (Next (walletAddress authResult), st')))"

section \<open>routes/authRoutes.js\<close>

record signin_body =
  message :: jsval
  signature :: jsval

text \<open>
  A response: the status and the fields of the JSON body, \<open>None\<close> for a field the
  handler does not send. \<open>user\<close> is \<open>user.walletAddress\<close>.
\<close>

record response =
  status :: nat
  success :: "bool option"
  error :: "string option"
  needsSetup :: "bool option"
  address :: "string option"
  token :: "token option"
  user :: "string option"

definition reply :: "nat \<Rightarrow> bool \<Rightarrow> string \<Rightarrow> response" where
  "reply s ok err =
     \<lparr>status = s, success = Some ok, error = Some err, needsSetup = None, address = None,
      token = None, user = None\<rparr>"

text \<open>The \<open>try\<close> block of the \<open>POST /signin\<close> handler.\<close>

definition signin_try ::
  "env \<Rightarrow> signin_body \<Rightarrow> int \<Rightarrow> supabase \<Rightarrow> (js_exn + response) \<times> supabase" where
  "signin_try e body now st =
     (case message body of
        JStr m \<Rightarrow>
          (case address_match m of
             None \<Rightarrow>
               (Inr (reply 400 False ''Invalid message format - could not extract address''), st)
           | Some addr \<Rightarrow>
               (case userDb_exists addr st of
                  (Inl x, st1) \<Rightarrow> (Inl x, st1)
                | (Inr userExists, st1) \<Rightarrow>
                    if \<not> userExists then
                      (Inr ((reply 403 False ''Profile setup required'')
                              \<lparr>needsSetup := Some True, address := Some (toLowerCase addr)\<rparr>), st1)
                    else
                      (case createAuthSession e addr now st1 of
                         (Inl x, st2) \<Rightarrow> (Inl x, st2)
                       | (Inr t, st2) \<Rightarrow>
                           (Inr \<lparr>status = 200, success = Some True, error = None,
                                 needsSetup = None, address = None, token = Some t,
                                 user = Some addr\<rparr>, st2))))
      | _ \<Rightarrow> (Inl TypeError, st))"

definition signin :: "env \<Rightarrow> signin_body \<Rightarrow> int \<Rightarrow> supabase \<Rightarrow> response \<times> supabase" where
  "signin e body now st =
     (if \<not> truthy (message body) \<or> \<not> truthy (signature body)
      then (reply 400 False ''Missing message or signature'', st)
      else
        (case signin_try e body now st of
           (Inr r, st') \<Rightarrow> (r, st')
         | (Inl x, st') \<Rightarrow>
             if exn_code x = Some ''23503''
             then ((reply 403 False ''Profile setup required'')\<lparr>needsSetup := Some True\<rparr>, st')
             else (reply 500 False ''Authentication failed'', st')))"

section \<open>Browser storage\<close>

text \<open>
  \<open>localStorage\<close> and \<open>sessionStorage\<close> hold text under distinct keys, listed in the
  order of \<open>Object.keys\<close>. A stored text is modelled symbolically: \<open>Serialized c\<close> is
  \<open>JSON.stringify(c)\<close> for a cache record \<open>c\<close>, which \<open>JSON.parse\<close> maps back to \<open>c\<close>;
  \<open>Text s\<close> is any other text \<open>s\<close>, and under the cache key it stands for text that
  \<open>JSON.parse\<close> rejects (text that parses to JSON of another shape is not modelled).
\<close>

record AuthCache =
  c_isAuthenticated :: bool
  c_userAddress :: "string option"
  c_userExists :: bool
  timestamp :: int

datatype stored = Serialized AuthCache | Text string

type_synonym storage = "(string \<times> stored) list"

definition getItem :: "string \<Rightarrow> storage \<Rightarrow> stored option" where
  "getItem k ls = map_of ls k"

definition removeItem :: "string \<Rightarrow> storage \<Rightarrow> storage" where
  "removeItem k ls = filter (\<lambda>kv. fst kv \<noteq> k) ls"

definition setItem :: "string \<Rightarrow> stored \<Rightarrow> storage \<Rightarrow> storage" where
  "setItem k v ls =
     (if k \<in> set (map fst ls) then map (\<lambda>kv. if fst kv = k then (k, v) else kv) ls
      else ls @ [(k, v)])"


section \<open>The cached auth store\<close>


definition CACHE_KEY :: string where
  "CACHE_KEY = ''cheshire_auth_cache''"



definition clearCachedAuth :: "storage \<Rightarrow> storage" where
  "clearCachedAuth ls = removeItem CACHE_KEY ls"

section \<open>store/supabaseAuthStore.ts and hooks/useWalletAuthSync.ts\<close>


record AuthState =
  isAuthenticated :: bool
  isAuthenticating :: bool
  userAddress :: "string option"
  userExists :: bool
  isCheckingUser :: bool
  serverError :: bool
  jwtToken :: "token option"











section \<open>Sample data\<close>

text \<open>Concrete configurations, stores and requests on which the results below are run.\<close>

definition sample_env :: env where
  "sample_env = \<lparr>JWT_SECRET = Some ''s3cret'', SUPABASE_SERVICE_KEY = None\<rparr>"

definition sample_address :: string where
  "sample_address = ''0x52908400098527886E0F7030069857D2E4169EE7''"

definition sample_store :: supabase where
  "sample_store =
     \<lparr>users = {''0x52908400098527886e0f7030069857d2e4169ee7''}, user_sessions = Map.empty,
      calls = [], faults = (\<lambda>n. None)\<rparr>"

definition failing_store :: supabase where
  "failing_store = sample_store\<lparr>faults := (\<lambda>n. Some (Returned (DbError ''57P01'')))\<rparr>"

definition sample_payload :: jwt_payload where
  "sample_payload =
     \<lparr>wallet_address = ''0x52908400098527886e0f7030069857d2e4169ee7'', iat = 5,
      exp = 129605, iss = ''cheshire-auth'',
      sub = ''0x52908400098527886e0f7030069857d2e4169ee7''\<rparr>"

definition sample_token :: token where
  "sample_token = Signed sample_payload ''s3cret''"

definition sample_row :: session_row where
  "sample_row =
     \<lparr>row_wallet_address = ''0x52908400098527886e0f7030069857d2e4169ee7'',
      expires_at = 129605000, created_at = 5000\<rparr>"

text \<open>The store after the sample credential was issued at time 5000.\<close>

definition issued_store :: supabase where
  "issued_store =
     sample_store\<lparr>user_sessions := [sample_token \<mapsto> sample_row],
                  calls := [InsertSession sample_token]\<rparr>"

text \<open>A store whose row for the sample credential ran out at time 1000.\<close>

definition stale_store :: supabase where
  "stale_store =
     sample_store\<lparr>user_sessions := [sample_token \<mapsto> sample_row\<lparr>expires_at := 1000\<rparr>]\<rparr>"


text \<open>The message the sign-in component builds for the sample address.\<close>

definition sample_message :: string where
  "sample_message =
     ''Sign this message to authenticate with Cheshire.'' @ [CHR 0x0A, CHR 0x0A]
     @ ''Address: 0x52908400098527886E0F7030069857D2E4169EE7'' @ [CHR 0x0A]
     @ ''Chain ID: 1'' @ [CHR 0x0A] @ ''Nonce: 8a7Hq2LmZ0xYw3Rt9''"

text \<open>A store with no profile at all.\<close>

definition empty_store :: supabase where
  "empty_store = sample_store\<lparr>users := {}\<rparr>"

text \<open>A signature of the usual shape: 65 bytes in hexadecimal.\<close>

definition sample_signature :: string where
  "sample_signature =
     ''0x9f3c1a7e5b2d80469f3c1a7e5b2d80469f3c1a7e5b2d80469f3c1a7e5b2d8046''
     @ ''9f3c1a7e5b2d80469f3c1a7e5b2d80469f3c1a7e5b2d80469f3c1a7e5b2d80461b''"




section \<open>Properties\<close>

subsection \<open>Auxiliary facts\<close>

lemma user_sessions_log_call [simp]: "user_sessions (log_call c st) = user_sessions st"
  by (simp add: log_call_def)

lemma users_log_call [simp]: "users (log_call c st) = users st"
  by (simp add: log_call_def)

lemma calls_log_call [simp]: "calls (log_call c st) = calls st @ [c]"
  by (simp add: log_call_def)

lemma faults_log_call [simp]: "faults (log_call c st) = faults st"
  by (simp add: log_call_def)

lemma toLowerCase_sample_address:
  "toLowerCase sample_address = ''0x52908400098527886e0f7030069857d2e4169ee7''"
  by (simp add: sample_address_def toLowerCase_def toLowerCase_char_def)

lemma jwtSecret_sample_env: "jwtSecret sample_env = ''s3cret''"
  by (simp add: jwtSecret_def js_or_def sample_env_def)

lemma createAuthSession_sample:
  "createAuthSession sample_env sample_address 5000 sample_store =
     (Inr sample_token, issued_store)"
  by (simp add: createAuthSession_def toLowerCase_sample_address jwtSecret_sample_env
        insert_session_def db_call_def next_fault_def log_call_def jwt_sign_def
        SESSION_DURATION_def sample_token_def sample_payload_def sample_row_def
        sample_store_def issued_store_def Let_def)

lemma createAuthSession_failing:
  "createAuthSession sample_env sample_address 5000 failing_store =
     (Inl (DbExn (DbError ''57P01'')), failing_store\<lparr>calls := [InsertSession sample_token]\<rparr>)"
  by (simp add: createAuthSession_def toLowerCase_sample_address jwtSecret_sample_env
        insert_session_def db_call_def next_fault_def log_call_def jwt_sign_def
        SESSION_DURATION_def sample_token_def sample_payload_def sample_row_def
        sample_store_def failing_store_def Let_def)

subsection \<open>Issuance is all-or-nothing\<close>

text \<open>
  Claim C4. \<open>createAuthSession\<close> hands out a token only when the insert into
  \<open>user_sessions\<close> succeeded, and then the token is recorded with the lower-cased address
  and its expiry. Whenever the insert does not succeed (the service fails, or a constraint
  rejects the row), the call throws the store's error, returns no token, and the table
  is as it was.
\<close>

theorem createAuthSession_all_or_nothing:
  "(fst (createAuthSession e a now st) = Inr t \<longrightarrow>
      user_sessions (snd (createAuthSession e a now st)) t =
        Some \<lparr>row_wallet_address = toLowerCase a,
              expires_at = now + SESSION_DURATION * 1000, created_at = now\<rparr>)
   \<and> (fst (insert_session
              (jwt_sign \<lparr>wallet_address = toLowerCase a, iat = now div 1000,
                          exp = now div 1000 + SESSION_DURATION, iss = ''cheshire-auth'',
                          sub = toLowerCase a\<rparr> (jwtSecret e))
              \<lparr>row_wallet_address = toLowerCase a,
               expires_at = now + SESSION_DURATION * 1000, created_at = now\<rparr> st) \<noteq> Data ()
        \<longrightarrow> (\<exists>err. fst (createAuthSession e a now st) = Inl (DbExn err))
            \<and> user_sessions (snd (createAuthSession e a now st)) = user_sessions st)"
  by (auto simp: createAuthSession_def insert_session_def db_call_def Let_def
           split: option.splits db_fault.splits if_splits)

theorem createAuthSession_all_or_nothing_witness:
  "fst (createAuthSession sample_env sample_address 5000 sample_store) = Inr sample_token
   \<and> user_sessions (snd (createAuthSession sample_env sample_address 5000 sample_store))
        sample_token = Some sample_row
   \<and> fst (createAuthSession sample_env sample_address 5000 failing_store)
        = Inl (DbExn (DbError ''57P01''))
   \<and> user_sessions (snd (createAuthSession sample_env sample_address 5000 failing_store))
        = user_sessions failing_store"
proof -
  have issued: "fst (createAuthSession sample_env sample_address 5000 sample_store)
                  = Inr sample_token"
    by (simp add: createAuthSession_sample)
  have write_fails:
    "fst (insert_session
            (jwt_sign \<lparr>wallet_address = toLowerCase sample_address, iat = 5000 div 1000,
                        exp = 5000 div 1000 + SESSION_DURATION, iss = ''cheshire-auth'',
                        sub = toLowerCase sample_address\<rparr> (jwtSecret sample_env))
            \<lparr>row_wallet_address = toLowerCase sample_address,
             expires_at = 5000 + SESSION_DURATION * 1000, created_at = 5000\<rparr> failing_store)
       \<noteq> Data ()"
    by (simp add: insert_session_def db_call_def next_fault_def failing_store_def
          sample_store_def)
  have recorded:
    "user_sessions (snd (createAuthSession sample_env sample_address 5000 sample_store))
       sample_token = Some sample_row"
    using createAuthSession_all_or_nothing
            [of sample_env sample_address 5000 sample_store sample_token] issued
    by (simp add: toLowerCase_sample_address SESSION_DURATION_def sample_row_def)
  have untouched:
    "user_sessions (snd (createAuthSession sample_env sample_address 5000 failing_store))
       = user_sessions failing_store"
    using createAuthSession_all_or_nothing
            [of sample_env sample_address 5000 failing_store] write_fails
    by blast
  show ?thesis
    using issued recorded untouched by (simp add: createAuthSession_failing)
qed

subsection \<open>The structural check comes before the store\<close>

lemma verifyAuthToken_forged:
  "jwt_verify t (jwtSecret e) now = Inl x \<Longrightarrow> verifyAuthToken e t now st = (Inr None, st)"
  by (simp add: verifyAuthToken_def verifyAuthToken_try_def)


text \<open>
  Claim C2. A bearer token whose \<open>exp\<close> is not after the clock is answered 401 by
  \<open>requireJwtAuth\<close> whatever the store holds, and the store is not called: it is returned
  as it was, call log included. The same holds for every token that \<open>jwt.verify\<close>
  rejects (forged or malformed): \<open>verifyAuthToken\<close> returns \<open>null\<close> before any query.
\<close>

theorem structural_check_precedes_store:
  "(exp p * 1000 \<le> now \<longrightarrow>
      requireJwtAuth e \<lparr>authorization = Some (Bearer (Signed p k))\<rparr> now st
        = (Reject 401 ''Invalid or expired token'', st))
   \<and> (isl (jwt_verify t (jwtSecret e) now) \<longrightarrow>
        verifyAuthToken e t now st = (Inr None, st)
        \<and> requireJwtAuth e \<lparr>authorization = Some (Bearer t)\<rparr> now st
            = (Reject 401 ''Invalid or expired token'', st))"
proof -
  have rejected: "verifyAuthToken e t' now st = (Inr None, st)"
    if "isl (jwt_verify t' (jwtSecret e) now)" for t'
    using that by (auto simp: isl_def intro: verifyAuthToken_forged)
  have expired: "isl (jwt_verify (Signed p k) (jwtSecret e) now)" if "exp p * 1000 \<le> now"
  proof -
    from that have "exp p \<le> now div 1000" by linarith
    then show ?thesis by (simp add: jwt_verify_def)
  qed
  show ?thesis
    using rejected expired by (simp add: requireJwtAuth_def)
qed

theorem structural_check_precedes_store_witness:
  "exp sample_payload * 1000 \<le> 200000000
   \<and> session_exists issued_store sample_token ''0x52908400098527886e0f7030069857d2e4169ee7''
   \<and> requireJwtAuth sample_env \<lparr>authorization = Some (Bearer sample_token)\<rparr> 200000000
        issued_store = (Reject 401 ''Invalid or expired token'', issued_store)
   \<and> isl (jwt_verify (Opaque ''not.a.token'') (jwtSecret sample_env) 5000)
   \<and> verifyAuthToken sample_env (Opaque ''not.a.token'') 5000 issued_store
        = (Inr None, issued_store)"
proof -
  have past: "exp sample_payload * 1000 \<le> 200000000"
    by (simp add: sample_payload_def)
  have present:
    "session_exists issued_store sample_token ''0x52908400098527886e0f7030069857d2e4169ee7''"
    by (simp add: session_exists_def issued_store_def sample_row_def)
  have malformed: "isl (jwt_verify (Opaque ''not.a.token'') (jwtSecret sample_env) 5000)"
    by (simp add: jwt_verify_def)
  from structural_check_precedes_store
         [of sample_payload 200000000 sample_env "''s3cret''" issued_store
             "Opaque ''not.a.token''"]
  show ?thesis
    using past present malformed
      structural_check_precedes_store
         [of sample_payload 5000 sample_env "''s3cret''" issued_store "Opaque ''not.a.token''"]
    by (simp add: sample_token_def)
qed

subsection \<open>Verification writes to the store in one case only\<close>

lemma verifyAuthToken_expired_row:
  assumes "jwt_verify t (jwtSecret e) now = Inr d" and "next_fault st = None"
    and "user_sessions st t = Some row" and "row_wallet_address row = wallet_address d"
    and "expires_at row < now"
  shows "fst (verifyAuthToken e t now st) = Inr None"
    and "calls (snd (verifyAuthToken e t now st))
           = calls st @ [SelectSession t (wallet_address d), DeleteSession t]"
    and "user_sessions (snd (verifyAuthToken e t now st))
           = (if faults st (Suc (length (calls st))) = None
              then (user_sessions st)(t := None) else user_sessions st)"
  using assms
  by (auto simp: verifyAuthToken_def verifyAuthToken_try_def select_session_def
        delete_session_def db_call_def next_fault_def
        split: option.splits db_fault.splits)

lemma verifyAuthToken_other_outcomes:
  assumes "\<not> (\<exists>d row. jwt_verify t (jwtSecret e) now = Inr d \<and> next_fault st = None
            \<and> user_sessions st t = Some row \<and> row_wallet_address row = wallet_address d
            \<and> expires_at row < now)"
  shows "user_sessions (snd (verifyAuthToken e t now st)) = user_sessions st"
    and "DeleteSession t
           \<notin> set (drop (length (calls st)) (calls (snd (verifyAuthToken e t now st))))"
  using assms
  by (auto simp: verifyAuthToken_def verifyAuthToken_try_def select_session_def
        db_call_def
        split: sum.splits option.splits db_fault.splits)

text \<open>
  Claim C10. When the token passes \<open>jwt.verify\<close>, the query answers, and the row found
  for the token and its address has \<open>expires_at\<close> before the clock, \<open>verifyAuthToken\<close>
  makes exactly two calls, the query and a delete keyed by the token alone, and returns
  \<open>null\<close>; the row is gone afterwards unless the service fails the delete. In every
  other outcome of \<open>verifyAuthToken\<close> the table \<open>user_sessions\<close> is as before and no
  delete is issued, and a request without a bearer token leaves the whole store as it
  was.
\<close>

theorem verifyAuthToken_expired_row_cleanup:
  "(jwt_verify t (jwtSecret e) now = Inr d \<and> next_fault st = None
      \<and> user_sessions st t = Some row \<and> row_wallet_address row = wallet_address d
      \<and> expires_at row < now
    \<longrightarrow> fst (verifyAuthToken e t now st) = Inr None
        \<and> calls (snd (verifyAuthToken e t now st))
            = calls st @ [SelectSession t (wallet_address d), DeleteSession t]
        \<and> user_sessions (snd (verifyAuthToken e t now st))
            = (if faults st (Suc (length (calls st))) = None
               then (user_sessions st)(t := None) else user_sessions st))
   \<and> (\<not> (\<exists>d' row'. jwt_verify t (jwtSecret e) now = Inr d' \<and> next_fault st = None
            \<and> user_sessions st t = Some row' \<and> row_wallet_address row' = wallet_address d'
            \<and> expires_at row' < now)
      \<longrightarrow> user_sessions (snd (verifyAuthToken e t now st)) = user_sessions st
          \<and> DeleteSession t
              \<notin> set (drop (length (calls st)) (calls (snd (verifyAuthToken e t now st)))))
   \<and> snd (requireJwtAuth e \<lparr>authorization = None\<rparr> now st) = st
   \<and> snd (requireJwtAuth e \<lparr>authorization = Some (NonBearer s)\<rparr> now st) = st"
  using verifyAuthToken_expired_row [of t e now d st row]
    verifyAuthToken_other_outcomes [of t e now st]
  by (simp add: requireJwtAuth_def)

theorem verifyAuthToken_expired_row_cleanup_witness:
  "jwt_verify sample_token (jwtSecret sample_env) 5000 = Inr sample_payload
   \<and> user_sessions stale_store sample_token = Some (sample_row\<lparr>expires_at := 1000\<rparr>)
   \<and> fst (verifyAuthToken sample_env sample_token 5000 stale_store) = Inr None
   \<and> calls (snd (verifyAuthToken sample_env sample_token 5000 stale_store))
        = [SelectSession sample_token ''0x52908400098527886e0f7030069857d2e4169ee7'',
           DeleteSession sample_token]
   \<and> user_sessions (snd (verifyAuthToken sample_env sample_token 5000 stale_store))
        sample_token = None
   \<and> user_sessions (snd (verifyAuthToken sample_env sample_token 5000 issued_store))
        = user_sessions issued_store"
proof -
  have valid: "jwt_verify sample_token (jwtSecret sample_env) 5000 = Inr sample_payload"
    by (simp add: jwt_verify_def jwtSecret_sample_env sample_token_def sample_payload_def)
  have stale: "user_sessions stale_store sample_token = Some (sample_row\<lparr>expires_at := 1000\<rparr>)"
    by (simp add: stale_store_def sample_store_def)
  have hyps: "next_fault stale_store = None"
    "row_wallet_address (sample_row\<lparr>expires_at := 1000\<rparr>) = wallet_address sample_payload"
    "expires_at (sample_row\<lparr>expires_at := 1000\<rparr>) < 5000"
    "faults stale_store (Suc (length (calls stale_store))) = None"
    "calls stale_store = []"
    by (simp_all add: next_fault_def stale_store_def sample_store_def sample_row_def
          sample_payload_def)
  have fresh: "\<not> (\<exists>d' row'. jwt_verify sample_token (jwtSecret sample_env) 5000 = Inr d'
            \<and> next_fault issued_store = None
            \<and> user_sessions issued_store sample_token = Some row'
            \<and> row_wallet_address row' = wallet_address d' \<and> expires_at row' < 5000)"
    by (simp add: issued_store_def sample_row_def)
  show ?thesis
    using valid stale hyps fresh
      verifyAuthToken_expired_row_cleanup
        [of sample_token sample_env 5000 sample_payload stale_store
            "sample_row\<lparr>expires_at := 1000\<rparr>"]
      verifyAuthToken_expired_row_cleanup
        [of sample_token sample_env 5000 sample_payload issued_store sample_row]
    by (simp add: sample_payload_def)
qed

subsection \<open>Issue, look up, sign out, verify\<close>



lemma createAuthSession_recorded:
  "createAuthSession e a now st = (Inr t, st1) \<Longrightarrow>
     user_sessions st1 t = Some \<lparr>row_wallet_address = toLowerCase a,
              expires_at = now + SESSION_DURATION * 1000, created_at = now\<rparr>"
  by (auto simp: createAuthSession_def insert_session_def db_call_def Let_def
           split: option.splits db_fault.splits if_splits)







subsection \<open>The signing secret\<close>




subsection \<open>Sweeping expired sessions\<close>

lemma delete_expired_rows:
  "user_sessions (snd (delete_expired now st)) =
     (if next_fault st = None
      then (\<lambda>t. case user_sessions st t of
                  Some row \<Rightarrow> if expires_at row < now then None else Some row
                | None \<Rightarrow> None)
      else user_sessions st)"
  by (auto simp: delete_expired_def db_call_def split: option.splits db_fault.splits)

lemma cleanupExpiredSessions_rows:
  "user_sessions (snd (cleanupExpiredSessions now st))
     = user_sessions (snd (delete_expired now st))"
  by (simp add: cleanupExpiredSessions_def split: prod.splits db_result.splits)

text \<open>
  Claim C8, as stated, fails: \<open>cleanupExpiredSessions\<close> returns no count. The second of
  two calls in a row returns \<open>undefined\<close>, not 0.
\<close>

theorem cleanupExpiredSessions_counterexample:
  "fst (cleanupExpiredSessions 5000 (snd (cleanupExpiredSessions 5000 stale_store)))
     = Inr JUndefined
   \<and> fst (cleanupExpiredSessions 5000 (snd (cleanupExpiredSessions 5000 stale_store)))
     \<noteq> Inr (JNum 0)"
  by (simp add: cleanupExpiredSessions_def split: prod.splits db_result.splits)

text \<open>
  Claim C8, amended. \<open>cleanupExpiredSessions\<close> never throws and its value is always
  \<open>undefined\<close>. When the first of two calls reaches the store, and every row that is
  expired at the time of the second call was already expired at the time of the first,
  the second call removes nothing.
\<close>

theorem cleanupExpiredSessions_idempotent:
  "fst (cleanupExpiredSessions now st) = Inr JUndefined
   \<and> (next_fault st = None
        \<and> (\<forall>t row. user_sessions st t = Some row \<and> expires_at row < now'
              \<longrightarrow> expires_at row < now)
      \<longrightarrow> user_sessions (snd (cleanupExpiredSessions now'
                                  (snd (cleanupExpiredSessions now st))))
          = user_sessions (snd (cleanupExpiredSessions now st)))"
proof -
  have undef: "fst (cleanupExpiredSessions now st) = Inr JUndefined"
    by (simp add: cleanupExpiredSessions_def split: prod.splits db_result.splits)
  have same: "user_sessions (snd (cleanupExpiredSessions now'
                                  (snd (cleanupExpiredSessions now st))))
          = user_sessions (snd (cleanupExpiredSessions now st))"
    if up: "next_fault st = None"
      and quiet: "\<forall>t row. user_sessions st t = Some row \<and> expires_at row < now'
              \<longrightarrow> expires_at row < now"
  proof -
    let ?st1 = "snd (cleanupExpiredSessions now st)"
    have first: "user_sessions ?st1 =
       (\<lambda>t. case user_sessions st t of
                  Some row \<Rightarrow> if expires_at row < now then None else Some row
                | None \<Rightarrow> None)"
      using up by (simp add: cleanupExpiredSessions_rows delete_expired_rows)
    have kept: "(case user_sessions ?st1 t of
                  Some row \<Rightarrow> if expires_at row < now' then None else Some row
                | None \<Rightarrow> None) = user_sessions ?st1 t" for t
      using quiet by (auto simp: first split: option.splits)
    have "user_sessions (snd (cleanupExpiredSessions now' ?st1)) t = user_sessions ?st1 t"
      for t
      using kept [of t]
      by (simp add: cleanupExpiredSessions_rows [of now' ?st1]
            delete_expired_rows [of now' ?st1])
    then show ?thesis
      by (rule ext)
  qed
  from undef same show ?thesis by blast
qed

theorem cleanupExpiredSessions_idempotent_witness:
  "next_fault stale_store = None
   \<and> user_sessions stale_store sample_token \<noteq> None
   \<and> user_sessions (snd (cleanupExpiredSessions 5000 stale_store)) sample_token = None
   \<and> user_sessions (snd (cleanupExpiredSessions 5000
                            (snd (cleanupExpiredSessions 5000 stale_store))))
       = user_sessions (snd (cleanupExpiredSessions 5000 stale_store))"
proof -
  have up: "next_fault stale_store = None"
    by (simp add: next_fault_def stale_store_def sample_store_def)
  have held: "user_sessions stale_store sample_token \<noteq> None"
    by (simp add: stale_store_def)
  have swept: "user_sessions (snd (cleanupExpiredSessions 5000 stale_store)) sample_token = None"
    using up
    by (simp add: cleanupExpiredSessions_rows delete_expired_rows stale_store_def)
  show ?thesis
    using up held swept cleanupExpiredSessions_idempotent [of 5000 stale_store 5000]
    by simp
qed

subsection \<open>The sign-in route\<close>

lemma address_match_sample: "address_match sample_message = Some sample_address"
  by (simp add: sample_message_def sample_address_def match_here_def is_hex_def)

lemma signin_try_signature:
  "signin_try e \<lparr>message = m, signature = s1\<rparr> now st
     = signin_try e \<lparr>message = m, signature = s2\<rparr> now st"
  by (simp add: signin_try_def)

lemma signin_token_cases:
  assumes "token (fst (signin e body now st)) = Some t"
  shows "\<exists>msg addr st1. message body = JStr msg \<and> address_match msg = Some addr
           \<and> truthy (signature body)
           \<and> userDb_exists addr st = (Inr True, st1)
           \<and> createAuthSession e addr now st1 = (Inr t, snd (signin e body now st))"
  using assms
  by (auto simp: signin_def signin_try_def reply_def
        split: if_splits jsval.splits option.splits prod.splits sum.splits)

lemma userDb_exists_True:
  "userDb_exists addr st = (Inr True, st1) \<Longrightarrow>
     toLowerCase addr \<in> users st \<and> user_sessions st1 = user_sessions st \<and> users st1 = users st"
  by (auto simp: userDb_exists_def select_user_def db_call_def
        split: option.splits db_fault.splits if_splits)

lemma signin_sample:
  "truthy s \<Longrightarrow>
   signin sample_env \<lparr>message = JStr sample_message, signature = s\<rparr> 5000 sample_store
     = (\<lparr>status = 200, success = Some True, error = None, needsSetup = None,
         address = None, token = Some sample_token, user = Some sample_address\<rparr>,
        (log_call (SelectUser ''0x52908400098527886e0f7030069857d2e4169ee7'') sample_store)
          \<lparr>user_sessions := [sample_token \<mapsto> sample_row],
           calls := [SelectUser ''0x52908400098527886e0f7030069857d2e4169ee7'',
                     InsertSession sample_token]\<rparr>)"
proof -
  have msg: "sample_message \<noteq> []"
    by (simp add: sample_message_def)
  show ?thesis if "truthy s"
    using that msg
    by (simp add: signin_def signin_try_def address_match_sample userDb_exists_def
          select_user_def toLowerCase_sample_address db_call_def next_fault_def
          createAuthSession_def jwtSecret_sample_env insert_session_def jwt_sign_def
          SESSION_DURATION_def sample_token_def sample_payload_def sample_row_def
          sample_store_def log_call_def Let_def)
qed

text \<open>
  Claim C1, as stated, fails: the handler issues a credential for a signature that is
  one letter, which no key has produced for any message.
\<close>

theorem signin_unverified_signature_counterexample:
  "fst (signin sample_env \<lparr>message = JStr sample_message, signature = JStr ''x''\<rparr> 5000
          sample_store)
     = \<lparr>status = 200, success = Some True, error = None, needsSetup = None,
        address = None, token = Some sample_token, user = Some sample_address\<rparr>"
  by (simp add: signin_sample)

text \<open>
  Claim C1, amended. The handler only requires the signature to be present: two
  requests with the same message and any two truthy signatures get the same response
  and leave the same store. A credential is issued only if the signature is truthy, the
  message is text in which \<open>Address: 0x\<close> and forty hexadecimal digits occur, and the
  lower-cased first such address has a profile; the credential is then recorded for
  that address.
\<close>

theorem signin_never_checks_signature:
  "(truthy s1 \<and> truthy s2 \<longrightarrow>
      signin e \<lparr>message = m, signature = s1\<rparr> now st
        = signin e \<lparr>message = m, signature = s2\<rparr> now st)
   \<and> (token (fst (signin e body now st)) = Some t \<longrightarrow>
        truthy (signature body)
        \<and> (\<exists>msg addr. message body = JStr msg \<and> address_match msg = Some addr
              \<and> toLowerCase addr \<in> users st
              \<and> session_exists (snd (signin e body now st)) t (toLowerCase addr)))"
proof -
  have same: "signin e \<lparr>message = m, signature = s1\<rparr> now st
        = signin e \<lparr>message = m, signature = s2\<rparr> now st"
    if "truthy s1 \<and> truthy s2"
    using that signin_try_signature [of e m s1 now st s2]
    by (simp add: signin_def)
  have gate: "truthy (signature body)
        \<and> (\<exists>msg addr. message body = JStr msg \<and> address_match msg = Some addr
              \<and> toLowerCase addr \<in> users st
              \<and> session_exists (snd (signin e body now st)) t (toLowerCase addr))"
    if "token (fst (signin e body now st)) = Some t"
  proof -
    from signin_token_cases [OF that] obtain msg addr st1 where
      m: "message body = JStr msg" "address_match msg = Some addr" "truthy (signature body)"
      and u: "userDb_exists addr st = (Inr True, st1)"
      and c: "createAuthSession e addr now st1 = (Inr t, snd (signin e body now st))"
      by blast
    from u have "toLowerCase addr \<in> users st"
      by (simp add: userDb_exists_True)
    moreover from createAuthSession_recorded [OF c]
    have "session_exists (snd (signin e body now st)) t (toLowerCase addr)"
      by (simp add: session_exists_def)
    ultimately show ?thesis
      using m by blast
  qed
  from same gate show ?thesis by blast
qed

theorem signin_never_checks_signature_witness:
  "truthy (JStr sample_signature) \<and> truthy (JBool True)
   \<and> signin sample_env \<lparr>message = JStr sample_message, signature = JStr sample_signature\<rparr>
        5000 sample_store
      = signin sample_env \<lparr>message = JStr sample_message, signature = JBool True\<rparr>
          5000 sample_store
   \<and> token (fst (signin sample_env
                    \<lparr>message = JStr sample_message, signature = JBool True\<rparr> 5000
                    sample_store)) = Some sample_token
   \<and> session_exists
        (snd (signin sample_env \<lparr>message = JStr sample_message, signature = JBool True\<rparr>
                5000 sample_store))
        sample_token ''0x52908400098527886e0f7030069857d2e4169ee7''"
proof -
  have present: "truthy (JStr sample_signature)" "truthy (JBool True)"
    by (simp_all add: sample_signature_def)
  have issued: "token (fst (signin sample_env
                    \<lparr>message = JStr sample_message, signature = JBool True\<rparr> 5000
                    sample_store)) = Some sample_token"
    by (simp add: signin_sample)
  note gate_free =
    signin_never_checks_signature
      [of "JStr sample_signature" "JBool True" sample_env "JStr sample_message" 5000
          sample_store "\<lparr>message = JStr sample_message, signature = JBool True\<rparr>"
          sample_token]
  from gate_free present
  have same: "signin sample_env
                \<lparr>message = JStr sample_message, signature = JStr sample_signature\<rparr>
                5000 sample_store
      = signin sample_env \<lparr>message = JStr sample_message, signature = JBool True\<rparr>
          5000 sample_store"
    by blast
  from gate_free issued
  have "\<exists>msg addr. message \<lparr>message = JStr sample_message, signature = JBool True\<rparr>
                      = JStr msg
          \<and> address_match msg = Some addr \<and> toLowerCase addr \<in> users sample_store
          \<and> session_exists
               (snd (signin sample_env
                       \<lparr>message = JStr sample_message, signature = JBool True\<rparr> 5000
                       sample_store)) sample_token (toLowerCase addr)"
    by blast
  then have recorded: "session_exists
        (snd (signin sample_env \<lparr>message = JStr sample_message, signature = JBool True\<rparr>
                5000 sample_store))
        sample_token ''0x52908400098527886e0f7030069857d2e4169ee7''"
    by (auto simp: address_match_sample toLowerCase_sample_address)
  from present same issued recorded show ?thesis
    by blast
qed

lemma createAuthSession_Inl:
  "createAuthSession e a now st = (Inl x, st1) \<Longrightarrow> user_sessions st1 = user_sessions st"
  by (auto simp: createAuthSession_def insert_session_def db_call_def Let_def
           split: option.splits db_fault.splits if_splits)

lemma userDb_exists_rows:
  "userDb_exists addr st = (r, st1) \<Longrightarrow> user_sessions st1 = user_sessions st"
  by (auto simp: userDb_exists_def select_user_def db_call_def 
        split: option.splits db_fault.splits if_splits)

lemma signin_status_set:
  "status (fst (signin e body now st)) \<in> {200, 400, 403, 500}"
  by (auto simp: signin_def signin_try_def reply_def
        split: if_splits jsval.splits option.splits prod.splits sum.splits)

lemma signin_200:
  assumes "status (fst (signin e body now st)) = 200"
  shows "\<exists>t addr. fst (signin e body now st)
            = \<lparr>status = 200, success = Some True, error = None, needsSetup = None,
               address = None, token = Some t, user = Some addr\<rparr>
          \<and> session_exists (snd (signin e body now st)) t (toLowerCase addr)"
proof -
  from assms obtain msg addr st1 t st2 where
    c: "createAuthSession e addr now st1 = (Inr t, st2)"
    and r: "signin e body now st = (\<lparr>status = 200, success = Some True, error = None, needsSetup = None,
               address = None, token = Some t, user = Some addr\<rparr>, st2)"
    by (auto simp: signin_def signin_try_def reply_def
        split: if_splits jsval.splits option.splits prod.splits sum.splits)
  from createAuthSession_recorded [OF c] r show ?thesis
    by (simp add: session_exists_def)
qed

lemma signin_not_200:
  assumes "status (fst (signin e body now st)) \<noteq> 200"
  shows "token (fst (signin e body now st)) = None
         \<and> user_sessions (snd (signin e body now st)) = user_sessions st"
  using assms
  by (auto simp: signin_def signin_try_def reply_def
        split: if_splits jsval.splits option.splits prod.splits sum.splits
        dest!: createAuthSession_Inl userDb_exists_rows)

lemma signin_no_profile:
  assumes "message body = JStr msg" and "truthy (signature body)"
    and "address_match msg = Some addr" and "next_fault st = None"
    and "toLowerCase addr \<notin> users st"
  shows "signin e body now st
           = (\<lparr>status = 403, success = Some False, error = Some ''Profile setup required'',
               needsSetup = Some True, address = Some (toLowerCase addr), token = None,
               user = None\<rparr>, log_call (SelectUser (toLowerCase addr)) st)"
proof -
  from assms(3) have "msg \<noteq> []" by (cases msg) auto
  with assms show ?thesis
    by (simp add: signin_def signin_try_def reply_def userDb_exists_def select_user_def
          db_call_def)
qed

text \<open>
  Claim C3, as stated, fails: a successful sign-in is answered with status 200, not
  201, and the body carries \<open>success\<close>, \<open>token\<close> and \<open>user.walletAddress\<close>.
\<close>

theorem signin_success_status_counterexample:
  "status (fst (signin sample_env
                  \<lparr>message = JStr sample_message, signature = JStr sample_signature\<rparr> 5000
                  sample_store)) = 200
   \<and> token (fst (signin sample_env
                  \<lparr>message = JStr sample_message, signature = JStr sample_signature\<rparr> 5000
                  sample_store)) = Some sample_token
   \<and> address (fst (signin sample_env
                  \<lparr>message = JStr sample_message, signature = JStr sample_signature\<rparr> 5000
                  sample_store)) = None"
  by (simp add: signin_sample sample_signature_def)

text \<open>
  Claim C3, amended. The handler answers with 200, 400, 403 or 500 only: it never
  answers 201 or 401. A 200 response carries \<open>success: true\<close>, the token and
  \<open>user.walletAddress\<close>, and the token is recorded for the lower-cased address. Every
  other response carries no token and leaves \<open>user_sessions\<close> as it was. When the
  message names an address, the signature is truthy, the profile query is answered and
  there is no profile for the lower-cased address, the response is 403 with
  \<open>needsSetup: true\<close> and that address, and the profile query is the only call made on
  the store.
\<close>

theorem signin_responses:
  "status (fst (signin e body now st)) \<in> {200, 400, 403, 500}
   \<and> (status (fst (signin e body now st)) = 200 \<longrightarrow>
        (\<exists>t addr. fst (signin e body now st)
            = \<lparr>status = 200, success = Some True, error = None, needsSetup = None,
               address = None, token = Some t, user = Some addr\<rparr>
          \<and> session_exists (snd (signin e body now st)) t (toLowerCase addr)))
   \<and> (status (fst (signin e body now st)) \<noteq> 200 \<longrightarrow>
        token (fst (signin e body now st)) = None
        \<and> user_sessions (snd (signin e body now st)) = user_sessions st)
   \<and> (message body = JStr msg \<and> truthy (signature body) \<and> address_match msg = Some a
        \<and> next_fault st = None \<and> toLowerCase a \<notin> users st \<longrightarrow>
        signin e body now st
           = (\<lparr>status = 403, success = Some False, error = Some ''Profile setup required'',
               needsSetup = Some True, address = Some (toLowerCase a), token = None,
               user = None\<rparr>, log_call (SelectUser (toLowerCase a)) st))"
  using signin_status_set [of e body now st] signin_200 [of e body now st]
    signin_not_200 [of e body now st] signin_no_profile [of body msg a st e now]
  by blast

theorem signin_responses_witness:
  "status (fst (signin sample_env
                  \<lparr>message = JStr sample_message, signature = JStr sample_signature\<rparr> 5000
                  sample_store)) = 200
   \<and> session_exists
        (snd (signin sample_env
                \<lparr>message = JStr sample_message, signature = JStr sample_signature\<rparr> 5000
                sample_store)) sample_token ''0x52908400098527886e0f7030069857d2e4169ee7''
   \<and> signin sample_env
        \<lparr>message = JStr sample_message, signature = JStr sample_signature\<rparr> 5000
        empty_store
      = (\<lparr>status = 403, success = Some False, error = Some ''Profile setup required'',
          needsSetup = Some True,
          address = Some ''0x52908400098527886e0f7030069857d2e4169ee7'', token = None,
          user = None\<rparr>,
         log_call (SelectUser ''0x52908400098527886e0f7030069857d2e4169ee7'') empty_store)
   \<and> status (fst (signin sample_env
                  \<lparr>message = JStr sample_message, signature = JStr sample_signature\<rparr> 5000
                  failing_store)) = 500
   \<and> user_sessions
        (snd (signin sample_env
                \<lparr>message = JStr sample_message, signature = JStr sample_signature\<rparr> 5000
                failing_store)) = user_sessions failing_store"
proof -
  let ?body = "\<lparr>message = JStr sample_message, signature = JStr sample_signature\<rparr>"
  have sig: "truthy (signature ?body)"
    by (simp add: sample_signature_def)
  have ok: "signin sample_env ?body 5000 sample_store
     = (\<lparr>status = 200, success = Some True, error = None, needsSetup = None,
         address = None, token = Some sample_token, user = Some sample_address\<rparr>,
        (log_call (SelectUser ''0x52908400098527886e0f7030069857d2e4169ee7'') sample_store)
          \<lparr>user_sessions := [sample_token \<mapsto> sample_row],
           calls := [SelectUser ''0x52908400098527886e0f7030069857d2e4169ee7'',
                     InsertSession sample_token]\<rparr>)"
    using sig by (simp add: signin_sample)
  from ok have s200: "status (fst (signin sample_env ?body 5000 sample_store)) = 200"
    by simp
  from signin_responses [of sample_env ?body 5000 sample_store] s200
  have "\<exists>t addr. fst (signin sample_env ?body 5000 sample_store)
            = \<lparr>status = 200, success = Some True, error = None, needsSetup = None,
               address = None, token = Some t, user = Some addr\<rparr>
          \<and> session_exists (snd (signin sample_env ?body 5000 sample_store)) t
               (toLowerCase addr)"
    by blast
  then have recorded: "session_exists (snd (signin sample_env ?body 5000 sample_store))
       sample_token ''0x52908400098527886e0f7030069857d2e4169ee7''"
    by (auto simp: ok toLowerCase_sample_address)
  have no_profile: "next_fault empty_store = None"
    "toLowerCase sample_address \<notin> users empty_store"
    by (simp_all add: next_fault_def empty_store_def sample_store_def)
  from signin_responses
         [of sample_env ?body 5000 empty_store sample_message sample_address]
    sig no_profile
  have gated: "signin sample_env ?body 5000 empty_store
      = (\<lparr>status = 403, success = Some False, error = Some ''Profile setup required'',
          needsSetup = Some True,
          address = Some ''0x52908400098527886e0f7030069857d2e4169ee7'', token = None,
          user = None\<rparr>,
         log_call (SelectUser ''0x52908400098527886e0f7030069857d2e4169ee7'') empty_store)"
    by (simp add: address_match_sample toLowerCase_sample_address)
  have msg: "sample_message \<noteq> []"
    by (simp add: sample_message_def)
  have s500: "status (fst (signin sample_env ?body 5000 failing_store)) = 500"
    using sig msg
    by (simp add: signin_def signin_try_def address_match_sample userDb_exists_def
          select_user_def db_call_def next_fault_def failing_store_def sample_store_def
          reply_def)
  with signin_responses [of sample_env ?body 5000 failing_store]
  have kept: "user_sessions (snd (signin sample_env ?body 5000 failing_store))
                = user_sessions failing_store"
    by simp
  from s200 recorded gated s500 kept show ?thesis
    by blast
qed

subsection \<open>The client cache and its time to live\<close>

lemma getItem_removeItem_same [simp]: "getItem k (removeItem k ls) = None"
  by (induction ls) (auto simp: getItem_def removeItem_def)

lemma getItem_setItem_same [simp]: "getItem k (setItem k v ls) = Some v"
proof (cases "k \<in> set (map fst ls)")
  case True
  then have "map_of (map (\<lambda>kv. if fst kv = k then (k, v) else kv) ls) k = Some v"
    by (induction ls) auto
  with True show ?thesis by (simp add: getItem_def setItem_def)
next
  case False
  then have "map_of ls k = None"
    by (simp add: map_of_eq_None_iff)
  with False show ?thesis by (simp add: getItem_def setItem_def map_add_def)
qed




subsection \<open>A change of the connected address\<close>


















end
